theory Spec2Isabelle
  imports Main
begin

section \<open>Data model\<close>

subsection \<open>The reference database\<close>

text \<open>
  Modelled from the spec: the record types of the reference database (package
  \<^verbatim>\<open>pcidb\<close>), whose declarations are not part of \<^verbatim>\<open>pci_linux.go\<close>. The field names are the
  ones \<^verbatim>\<open>pci_linux.go\<close> reads and writes; each is prefixed with its struct's name, since a
  field name is a constant here. The database stores its records behind non-nil pointers;
  the model holds the records themselves, and a list of pointers is a list of records.
\<close>

record ProgrammingInterface =
  ProgrammingInterface_ID :: string
  ProgrammingInterface_Name :: string

record Subclass =
  Subclass_ID :: string
  Subclass_Name :: string
  Subclass_ProgrammingInterfaces :: "ProgrammingInterface list"

record Class =
  Class_ID :: string
  Class_Name :: string
  Class_Subclasses :: "Subclass list"

text \<open>A product lists its subsystems, which are products again: a recursive type.\<close>

datatype Product = Product
  (Product_VendorID: string)
  (Product_ID: string)
  (Product_Name: string)
  (Product_Subsystems: "Product list")

record Vendor =
  Vendor_ID :: string
  Vendor_Name :: string
  Vendor_Products :: "Product list"

text \<open>
  \<^verbatim>\<open>Info\<close> holds three Go maps from strings to record pointers. The code only ever indexes
  them and compares the result with \<^verbatim>\<open>nil\<close>, which is what Go returns for an absent key:
  \<open>None\<close> is that \<^verbatim>\<open>nil\<close>.
\<close>

record Info =
  Classes :: "string \<rightharpoonup> Class"
  Vendors :: "string \<rightharpoonup> Vendor"
  Products :: "string \<rightharpoonup> Product"

text \<open>Modelled from the spec: the sentinel name \<^verbatim>\<open>util.UNKNOWN\<close> of a placeholder record.\<close>

definition UNKNOWN :: string where
  "UNKNOWN = ''unknown''"

subsection \<open>Addresses, decoded identifiers and devices\<close>

text \<open>
  Modelled from the spec: the four components of a parsed address (\<^verbatim>\<open>Address\<close>) and the
  device record (\<^verbatim>\<open>Device\<close>), declared outside \<^verbatim>\<open>pci_linux.go\<close>.
\<close>

record Address =
  Domain :: string
  Bus :: string
  Slot :: string
  Function :: string

record deviceModaliasInfo =
  vendorID :: string
  productID :: string
  subproductID :: string
  subvendorID :: string
  classID :: string
  subclassID :: string
  progIfaceID :: string

record Device =
  Device_Address :: string
  Device_Vendor :: Vendor
  Device_Subsystem :: Product
  Device_Product :: Product
  Device_Class :: Class
  Device_Subclass :: Subclass
  Device_ProgrammingInterface :: ProgrammingInterface

subsection \<open>Byte slices and faults\<close>

text \<open>
  A Go byte slice is a window of \<open>len\<close> bytes at the start of a backing array; the
  capacity is the length of that array. \<^verbatim>\<open>ioutil.ReadFile\<close> returns such a slice, and the
  file's content is its first \<open>len\<close> bytes.
\<close>

record byteslice =
  array :: string
  len :: nat

definition cap :: "byteslice \<Rightarrow> nat" where
  "cap d = length (array d)"

definition content :: "byteslice \<Rightarrow> string" where
  "content d = take (len d) (array d)"

datatype fault = SliceBoundsOutOfRange

text \<open>
  The slice expression \<^verbatim>\<open>string(data[lo:hi])\<close>. For a slice operand Go checks
  \<^verbatim>\<open>lo <= hi <= cap(data)\<close> and panics otherwise; the bound is the capacity, not the length.
\<close>

definition substring :: "string \<Rightarrow> nat \<Rightarrow> nat \<Rightarrow> string" where
  "substring s lo hi = take (hi - lo) (drop lo s)"

definition sliceString :: "byteslice \<Rightarrow> nat \<Rightarrow> nat \<Rightarrow> fault + string" where
  "sliceString data lo hi =
     (if lo \<le> hi \<and> hi \<le> cap data then Inr (substring (array data) lo hi)
      else Inl SliceBoundsOutOfRange)"

text \<open>A panic ends the function: the statements after it run only on a value.\<close>

definition andThen :: "fault + 'a \<Rightarrow> ('a \<Rightarrow> fault + 'b) \<Rightarrow> fault + 'b" where
  "andThen r f = (case r of Inl e \<Rightarrow> Inl e | Inr v \<Rightarrow> f v)"

subsection \<open>The platform\<close>

text \<open>
  What \<^verbatim>\<open>pci_linux.go\<close> calls and does not define: the devices directory of
  \<^verbatim>\<open>linuxpath.New(ctx)\<close>, the address parser, \<^verbatim>\<open>filepath.Join\<close>, the file system
  (\<^verbatim>\<open>os.Stat\<close> succeeding or not, \<^verbatim>\<open>ioutil.ReadFile\<close> and \<^verbatim>\<open>ioutil.ReadDir\<close> returning a value or
  an error, \<open>None\<close>), and the Unicode case mapping that \<^verbatim>\<open>strings.ToLower\<close> applies to a
  string with a byte outside ASCII.
\<close>

record platform =
  SysBusPciDevices :: string
  AddressFromString :: "string \<Rightarrow> Address option"
  Join :: "string list \<Rightarrow> string"
  Stat :: "string \<Rightarrow> bool"
  ReadFile :: "string \<Rightarrow> byteslice option"
  ReadDir :: "string \<Rightarrow> string list option"
  MapToLower :: "string \<Rightarrow> string"

section \<open>The identifier decoder\<close>

definition isASCII :: "string \<Rightarrow> bool" where
  "isASCII s = list_all (\<lambda>c. (of_char c :: nat) < 128) s"

definition lowerByte :: "char \<Rightarrow> char" where
  "lowerByte c =
     (let n = (of_char c :: nat) in if 65 \<le> n \<and> n \<le> 90 then char_of (n + 32) else c)"

text \<open>
  \<^verbatim>\<open>strings.ToLower\<close>: on an ASCII string every byte from \<^verbatim>\<open>'A'\<close> to \<^verbatim>\<open>'Z'\<close> is moved to
  its lower-case letter; any other string goes through the Unicode mapping.
\<close>

definition ToLower :: "platform \<Rightarrow> string \<Rightarrow> string" where
  "ToLower env s = (if isASCII s then map lowerByte s else MapToLower env s)"

definition getDeviceModaliasPath :: "platform \<Rightarrow> string \<Rightarrow> string" where
  "getDeviceModaliasPath env address =
     (case AddressFromString env address of
        None \<Rightarrow> ''''
      | Some pciAddr \<Rightarrow>
          Join env
            [SysBusPciDevices env,
             Domain pciAddr @ '':'' @ Bus pciAddr @ '':'' @ Slot pciAddr @ ''.'' @ Function pciAddr,
             ''modalias''])"

definition parseModaliasFile :: "platform \<Rightarrow> string \<Rightarrow> fault + deviceModaliasInfo option" where
  "parseModaliasFile env fp =
     (if \<not> Stat env fp then Inr None
      else case ReadFile env fp of
        None \<Rightarrow> Inr None
      | Some data \<Rightarrow>
          andThen (sliceString data 9 13) (\<lambda>s1. let vendorID' = ToLower env s1 in
          andThen (sliceString data 18 22) (\<lambda>s2. let productID' = ToLower env s2 in
          andThen (sliceString data 28 32) (\<lambda>s3. let subvendorID' = ToLower env s3 in
          andThen (sliceString data 38 42) (\<lambda>s4. let subproductID' = ToLower env s4 in
          andThen (sliceString data 44 46) (\<lambda>classID'.
          andThen (sliceString data 48 50) (\<lambda>subclassID'.
          andThen (sliceString data 51 53) (\<lambda>progIfaceID'.
            Inr (Some \<lparr>vendorID = vendorID',
                       productID = productID',
                       subproductID = subproductID',
                       subvendorID = subvendorID',
                       classID = classID',
                       subclassID = subclassID',
                       progIfaceID = progIfaceID'\<rparr>)))))))))"

section \<open>The hierarchical resolver\<close>

definition findPCIVendor :: "Info \<Rightarrow> string \<Rightarrow> Vendor" where
  "findPCIVendor info vid =
     (case Vendors info vid of
        None \<Rightarrow> \<lparr>Vendor_ID = vid, Vendor_Name = UNKNOWN, Vendor_Products = []\<rparr>
      | Some vendor \<Rightarrow> vendor)"

definition findPCIProduct :: "Info \<Rightarrow> string \<Rightarrow> string \<Rightarrow> Product" where
  "findPCIProduct info vid pid =
     (case Products info (vid @ pid) of
        None \<Rightarrow> Product '''' pid UNKNOWN []
      | Some product \<Rightarrow> product)"

text \<open>
  The three \<^verbatim>\<open>for ... range\<close> loops: walk the list from its head and return at the first
  entry whose ID is the one looked for; \<open>None\<close> when the loop runs to its end.
\<close>

fun rangeSubsystems :: "Product list \<Rightarrow> string \<Rightarrow> Product option" where
  "rangeSubsystems [] spid = None"
| "rangeSubsystems (p # ps) spid =
     (if Product_ID p = spid then Some p else rangeSubsystems ps spid)"

fun rangeSubclasses :: "Subclass list \<Rightarrow> string \<Rightarrow> Subclass option" where
  "rangeSubclasses [] scid = None"
| "rangeSubclasses (sc # scs) scid =
     (if Subclass_ID sc = scid then Some sc else rangeSubclasses scs scid)"

fun rangeProgrammingInterfaces ::
  "ProgrammingInterface list \<Rightarrow> string \<Rightarrow> ProgrammingInterface option" where
  "rangeProgrammingInterfaces [] piid = None"
| "rangeProgrammingInterfaces (pi # pis) piid =
     (if ProgrammingInterface_ID pi = piid then Some pi
      else rangeProgrammingInterfaces pis piid)"

definition findPCISubsystem :: "Info \<Rightarrow> string \<Rightarrow> string \<Rightarrow> string \<Rightarrow> string \<Rightarrow> Product" where
  "findPCISubsystem info vid pid svid spid =
     (let product = Products info (vid @ pid);
          subvendor = Vendors info svid;
          unknown = Product svid spid UNKNOWN []
      in case (subvendor, product) of
           (Some sv, Some p) \<Rightarrow>
             (case rangeSubsystems (Product_Subsystems p) spid of
                Some s \<Rightarrow> s
              | None \<Rightarrow> unknown)
         | _ \<Rightarrow> unknown)"

definition findPCIClass :: "Info \<Rightarrow> string \<Rightarrow> Class" where
  "findPCIClass info cid =
     (case Classes info cid of
        None \<Rightarrow> \<lparr>Class_ID = cid, Class_Name = UNKNOWN, Class_Subclasses = []\<rparr>
      | Some class \<Rightarrow> class)"

definition findPCISubclass :: "Info \<Rightarrow> string \<Rightarrow> string \<Rightarrow> Subclass" where
  "findPCISubclass info cid scid =
     (let unknown = \<lparr>Subclass_ID = scid, Subclass_Name = UNKNOWN,
                     Subclass_ProgrammingInterfaces = []\<rparr>
      in case Classes info cid of
           None \<Rightarrow> unknown
         | Some class \<Rightarrow>
             (case rangeSubclasses (Class_Subclasses class) scid of
                Some sc \<Rightarrow> sc
              | None \<Rightarrow> unknown))"

definition findPCIProgrammingInterface ::
  "Info \<Rightarrow> string \<Rightarrow> string \<Rightarrow> string \<Rightarrow> ProgrammingInterface" where
  "findPCIProgrammingInterface info cid scid piid =
     (let subclass = findPCISubclass info cid scid
      in case rangeProgrammingInterfaces (Subclass_ProgrammingInterfaces subclass) piid of
           Some pi \<Rightarrow> pi
         | None \<Rightarrow> \<lparr>ProgrammingInterface_ID = piid, ProgrammingInterface_Name = UNKNOWN\<rparr>)"

section \<open>Device assembly and enumeration\<close>

definition GetDevice :: "platform \<Rightarrow> Info \<Rightarrow> string \<Rightarrow> fault + Device option" where
  "GetDevice env info address =
     (let fp = getDeviceModaliasPath env address
      in if fp = '''' then Inr None
         else case parseModaliasFile env fp of
                Inl e \<Rightarrow> Inl e
              | Inr None \<Rightarrow> Inr None
              | Inr (Some m) \<Rightarrow>
                  Inr (Some
                    \<lparr>Device_Address = address,
                     Device_Vendor = findPCIVendor info (vendorID m),
                     Device_Subsystem =
                       findPCISubsystem info (vendorID m) (productID m)
                         (subvendorID m) (subproductID m),
                     Device_Product = findPCIProduct info (vendorID m) (productID m),
                     Device_Class = findPCIClass info (classID m),
                     Device_Subclass = findPCISubclass info (classID m) (subclassID m),
                     Device_ProgrammingInterface =
                       findPCIProgrammingInterface info (classID m) (subclassID m)
                         (progIfaceID m)\<rparr>))"

text \<open>
  What \<^verbatim>\<open>ListDevices\<close> leaves behind: the messages written to standard error, in order,
  and either the returned devices or the fault that ended the call. Go's \<^verbatim>\<open>nil\<close> slice is
  the empty list.
\<close>

record listing =
  stderr :: "string list"
  result :: "fault + Device list"

definition readDirFailed :: string where
  "readDirFailed = ''error: failed to read /sys/bus/pci/devices''"

definition getDeviceFailed :: "string \<Rightarrow> string" where
  "getDeviceFailed addr =
     ''error: failed to get device information for PCI address '' @ addr @ [CHR 0x0A]"

text \<open>The loop over the directory's entries, with the messages and devices so far.\<close>

fun rangeLinks :: "platform \<Rightarrow> Info \<Rightarrow> string list \<Rightarrow> string list \<Rightarrow> Device list \<Rightarrow> listing" where
  "rangeLinks env info [] out devs = \<lparr>stderr = out, result = Inr devs\<rparr>"
| "rangeLinks env info (addr # links) out devs =
     (case GetDevice env info addr of
        Inl e \<Rightarrow> \<lparr>stderr = out, result = Inl e\<rparr>
      | Inr None \<Rightarrow> rangeLinks env info links (out @ [getDeviceFailed addr]) devs
      | Inr (Some dev) \<Rightarrow> rangeLinks env info links out (devs @ [dev]))"

definition ListDevices :: "platform \<Rightarrow> Info \<Rightarrow> listing" where
  "ListDevices env info =
     (case ReadDir env (SysBusPciDevices env) of
        None \<Rightarrow> \<lparr>stderr = [readDirFailed], result = Inr []\<rparr>
      | Some links \<Rightarrow> rangeLinks env info links [] [])"

section \<open>A sample host\<close>

text \<open>
  A small database and a small devices directory, on which the theorems below are run:
  a graphics card and a USB controller with well-formed identifier files, one address
  without an identifier file, one directory entry that is no address, and one identifier
  file cut short.
\<close>

definition sampleInfo :: Info where
  "sampleInfo =
     \<lparr>Classes =
        [''03'' \<mapsto>
           \<lparr>Class_ID = ''03'', Class_Name = ''Display controller'',
            Class_Subclasses =
              [\<lparr>Subclass_ID = ''00'', Subclass_Name = ''VGA compatible controller'',
                Subclass_ProgrammingInterfaces =
                  [\<lparr>ProgrammingInterface_ID = ''00'',
                    ProgrammingInterface_Name = ''VGA controller''\<rparr>,
                   \<lparr>ProgrammingInterface_ID = ''01'',
                    ProgrammingInterface_Name = ''8514 controller''\<rparr>]\<rparr>,
               \<lparr>Subclass_ID = ''02'', Subclass_Name = ''3D controller'',
                Subclass_ProgrammingInterfaces = []\<rparr>]\<rparr>],
      Vendors =
        [''10de'' \<mapsto>
           \<lparr>Vendor_ID = ''10de'', Vendor_Name = ''NVIDIA Corporation'',
            Vendor_Products =
              [Product ''10de'' ''1c82'' ''GP107 [GeForce GTX 1050 Ti]''
                 [Product ''1043'' ''8613'' ''PH-GTX1050TI-4G'' []]]\<rparr>,
         ''1043'' \<mapsto>
           \<lparr>Vendor_ID = ''1043'', Vendor_Name = ''ASUSTeK Computer Inc.'',
            Vendor_Products = []\<rparr>],
      Products =
        [''10de1c82'' \<mapsto>
           Product ''10de'' ''1c82'' ''GP107 [GeForce GTX 1050 Ti]''
             [Product ''1043'' ''8613'' ''PH-GTX1050TI-4G'' []]]\<rparr>"

definition gpuBlob :: string where
  "gpuBlob = ''pci:v000010DEd00001C82sv00001043sd00008613bc03sc00i00''"

definition usbBlob :: string where
  "usbBlob = ''pci:v00008086d0000A12Fsv00001043sd00008694bc0Csc03i30''"

definition sampleAddresses :: "string \<rightharpoonup> Address" where
  "sampleAddresses =
     [''03:00.0'' \<mapsto> \<lparr>Domain = ''0000'', Bus = ''03'', Slot = ''00'', Function = ''0''\<rparr>,
      ''0000:03:00.0'' \<mapsto> \<lparr>Domain = ''0000'', Bus = ''03'', Slot = ''00'', Function = ''0''\<rparr>,
      ''0000:00:14.0'' \<mapsto> \<lparr>Domain = ''0000'', Bus = ''00'', Slot = ''14'', Function = ''0''\<rparr>,
      ''0000:00:1f.3'' \<mapsto> \<lparr>Domain = ''0000'', Bus = ''00'', Slot = ''1f'', Function = ''3''\<rparr>,
      ''0000:00:02.0'' \<mapsto> \<lparr>Domain = ''0000'', Bus = ''00'', Slot = ''02'', Function = ''0''\<rparr>]"

definition sampleFiles :: "string \<rightharpoonup> byteslice" where
  "sampleFiles =
     [''/sys/bus/pci/devices/0000:03:00.0/modalias'' \<mapsto>
        \<lparr>array = gpuBlob, len = 53\<rparr>,
      ''/sys/bus/pci/devices/0000:00:14.0/modalias'' \<mapsto>
        \<lparr>array = usbBlob @ [CHR 0x0A], len = 54\<rparr>,
      ''/sys/bus/pci/devices/0000:00:02.0/modalias'' \<mapsto>
        \<lparr>array = ''pci:'', len = 4\<rparr>]"

fun joinPath :: "string list \<Rightarrow> string" where
  "joinPath [] = []"
| "joinPath [x] = x"
| "joinPath (x # y # ys) = x @ ''/'' @ joinPath (y # ys)"

definition sampleHost :: platform where
  "sampleHost =
     \<lparr>SysBusPciDevices = ''/sys/bus/pci/devices'',
      AddressFromString = sampleAddresses,
      Join = joinPath,
      Stat = (\<lambda>fp. sampleFiles fp \<noteq> None),
      ReadFile = sampleFiles,
      ReadDir = [''/sys/bus/pci/devices'' \<mapsto>
                   [''0000:00:14.0'', ''0000:00:1f.3'', ''README'', ''0000:03:00.0'']],
      MapToLower = (\<lambda>s. s)\<rparr>"

text \<open>The same host with an identifier file cut short listed among its devices.\<close>

definition truncatedHost :: platform where
  "truncatedHost =
     sampleHost\<lparr>ReadDir := [''/sys/bus/pci/devices'' \<mapsto>
                   [''README'', ''0000:00:02.0'', ''0000:03:00.0'']]\<rparr>"

text \<open>
  The file cut short again, read into a buffer of 512 bytes: the four bytes of the file,
  then the zero bytes of the fresh buffer.
\<close>

definition paddedHost :: platform where
  "paddedHost =
     sampleHost\<lparr>ReadFile := [''/sys/bus/pci/devices/0000:00:02.0/modalias'' \<mapsto>
                   \<lparr>array = ''pci:'' @ replicate 508 (CHR 0x00), len = 4\<rparr>]\<rparr>"


text \<open>The two devices of the sample host, as the database describes them.\<close>

definition gpuDevice :: "string \<Rightarrow> Device" where
  "gpuDevice address =
     \<lparr>Device_Address = address,
      Device_Vendor =
        \<lparr>Vendor_ID = ''10de'', Vendor_Name = ''NVIDIA Corporation'',
         Vendor_Products =
           [Product ''10de'' ''1c82'' ''GP107 [GeForce GTX 1050 Ti]''
              [Product ''1043'' ''8613'' ''PH-GTX1050TI-4G'' []]]\<rparr>,
      Device_Subsystem = Product ''1043'' ''8613'' ''PH-GTX1050TI-4G'' [],
      Device_Product =
        Product ''10de'' ''1c82'' ''GP107 [GeForce GTX 1050 Ti]''
          [Product ''1043'' ''8613'' ''PH-GTX1050TI-4G'' []],
      Device_Class =
        \<lparr>Class_ID = ''03'', Class_Name = ''Display controller'',
         Class_Subclasses =
           [\<lparr>Subclass_ID = ''00'', Subclass_Name = ''VGA compatible controller'',
             Subclass_ProgrammingInterfaces =
               [\<lparr>ProgrammingInterface_ID = ''00'',
                 ProgrammingInterface_Name = ''VGA controller''\<rparr>,
                \<lparr>ProgrammingInterface_ID = ''01'',
                 ProgrammingInterface_Name = ''8514 controller''\<rparr>]\<rparr>,
            \<lparr>Subclass_ID = ''02'', Subclass_Name = ''3D controller'',
             Subclass_ProgrammingInterfaces = []\<rparr>]\<rparr>,
      Device_Subclass =
        \<lparr>Subclass_ID = ''00'', Subclass_Name = ''VGA compatible controller'',
         Subclass_ProgrammingInterfaces =
           [\<lparr>ProgrammingInterface_ID = ''00'',
             ProgrammingInterface_Name = ''VGA controller''\<rparr>,
            \<lparr>ProgrammingInterface_ID = ''01'',
             ProgrammingInterface_Name = ''8514 controller''\<rparr>]\<rparr>,
      Device_ProgrammingInterface =
        \<lparr>ProgrammingInterface_ID = ''00'',
         ProgrammingInterface_Name = ''VGA controller''\<rparr>\<rparr>"


section \<open>What an enumeration reports\<close>

text \<open>
  The addresses of a list whose resolution returns no device, and the devices of the
  others, both in the order of the list.
\<close>

definition skipped :: "platform \<Rightarrow> Info \<Rightarrow> string list \<Rightarrow> string list" where
  "skipped env info links = filter (\<lambda>addr. GetDevice env info addr = Inr None) links"

definition resolved :: "platform \<Rightarrow> Info \<Rightarrow> string list \<Rightarrow> Device list" where
  "resolved env info links =
     List.map_filter
       (\<lambda>addr. case GetDevice env info addr of Inr (Some dev) \<Rightarrow> Some dev | _ \<Rightarrow> None) links"

definition faults :: "platform \<Rightarrow> Info \<Rightarrow> string \<Rightarrow> bool" where
  "faults env info addr = isl (GetDevice env info addr)"

section \<open>Properties of the resolver\<close>

lemma rangeSubsystems_find:
  "rangeSubsystems ps spid = List.find (\<lambda>p. Product_ID p = spid) ps"
  by (induction ps) simp_all

lemma rangeSubclasses_find:
  "rangeSubclasses scs scid = List.find (\<lambda>sc. Subclass_ID sc = scid) scs"
  by (induction scs) simp_all

lemma rangeProgrammingInterfaces_find:
  "rangeProgrammingInterfaces pis piid =
     List.find (\<lambda>pi. ProgrammingInterface_ID pi = piid) pis"
  by (induction pis) simp_all

lemma find_first_match:
  "\<forall>x\<in>set pre. \<not> P x \<Longrightarrow> P s \<Longrightarrow> List.find P (pre @ s # post) = Some s"
  by (induction pre) simp_all

lemma find_no_match: "\<forall>x\<in>set xs. \<not> P x \<Longrightarrow> List.find P xs = None"
  by (simp add: find_None_iff)

text \<open>
  C7. A vendor ID that the database does not map resolves to the vendor record with that
  ID, the name \<^verbatim>\<open>unknown\<close> and no products, never to a missing value; a vendor ID that
  the database maps resolves to the database's record, unchanged.
\<close>

theorem findPCIVendor_miss_and_hit:
  "(Vendors info vid = None \<longrightarrow>
      findPCIVendor info vid =
        \<lparr>Vendor_ID = vid, Vendor_Name = ''unknown'', Vendor_Products = []\<rparr>)
   \<and> (\<forall>vendor. Vendors info vid = Some vendor \<longrightarrow> findPCIVendor info vid = vendor)"
  by (simp add: findPCIVendor_def UNKNOWN_def)

theorem findPCIVendor_miss_and_hit_witness:
  "Vendors sampleInfo ''8086'' = None
   \<and> findPCIVendor sampleInfo ''8086'' =
       \<lparr>Vendor_ID = ''8086'', Vendor_Name = ''unknown'', Vendor_Products = []\<rparr>
   \<and> Vendors sampleInfo ''1043'' =
       Some \<lparr>Vendor_ID = ''1043'', Vendor_Name = ''ASUSTeK Computer Inc.'',
             Vendor_Products = []\<rparr>
   \<and> findPCIVendor sampleInfo ''1043'' =
       \<lparr>Vendor_ID = ''1043'', Vendor_Name = ''ASUSTeK Computer Inc.'',
        Vendor_Products = []\<rparr>"
  using findPCIVendor_miss_and_hit [of sampleInfo "''8086''"]
    findPCIVendor_miss_and_hit [of sampleInfo "''1043''"]
  by (simp add: sampleInfo_def)

text \<open>
  C2. The subsystem lookup returns the placeholder product with the subvendor ID as its
  vendor, the subproduct ID as its ID and the name \<^verbatim>\<open>unknown\<close> whenever the product key
  (vendor ID followed by product ID) is absent, or the subvendor key is absent, or no
  entry of the product's subsystem list has the subproduct ID. When both keys are present
  and an entry has the subproduct ID, it returns the first such entry of the list.
\<close>

theorem findPCISubsystem_two_key_join:
  "((Products info (vid @ pid) = None
      \<or> Vendors info svid = None
      \<or> (\<exists>product. Products info (vid @ pid) = Some product
            \<and> (\<forall>s\<in>set (Product_Subsystems product). Product_ID s \<noteq> spid)))
     \<longrightarrow> findPCISubsystem info vid pid svid spid = Product svid spid ''unknown'' [])
   \<and> (\<forall>product subvendor pre s post.
         Products info (vid @ pid) = Some product
         \<and> Vendors info svid = Some subvendor
         \<and> Product_Subsystems product = pre @ s # post
         \<and> (\<forall>x\<in>set pre. Product_ID x \<noteq> spid)
         \<and> Product_ID s = spid
       \<longrightarrow> findPCISubsystem info vid pid svid spid = s)"
proof (intro conjI impI allI)
  assume miss: "Products info (vid @ pid) = None
      \<or> Vendors info svid = None
      \<or> (\<exists>product. Products info (vid @ pid) = Some product
            \<and> (\<forall>s\<in>set (Product_Subsystems product). Product_ID s \<noteq> spid))"
  show "findPCISubsystem info vid pid svid spid = Product svid spid ''unknown'' []"
  proof (cases "Vendors info svid")
    case None
    then show ?thesis
      by (simp add: findPCISubsystem_def UNKNOWN_def)
  next
    case (Some subvendor)
    show ?thesis
    proof (cases "Products info (vid @ pid)")
      case None
      then show ?thesis
        by (simp add: findPCISubsystem_def UNKNOWN_def Some)
    next
      case product: (Some product)
      with miss Some have "\<forall>s\<in>set (Product_Subsystems product). Product_ID s \<noteq> spid"
        by simp
      then have "rangeSubsystems (Product_Subsystems product) spid = None"
        unfolding rangeSubsystems_find by (rule find_no_match)
      then show ?thesis
        by (simp add: findPCISubsystem_def UNKNOWN_def Some product)
    qed
  qed
next
  fix product subvendor pre s post
  assume hit: "Products info (vid @ pid) = Some product
         \<and> Vendors info svid = Some subvendor
         \<and> Product_Subsystems product = pre @ s # post
         \<and> (\<forall>x\<in>set pre. Product_ID x \<noteq> spid)
         \<and> Product_ID s = spid"
  then have "rangeSubsystems (Product_Subsystems product) spid = Some s"
    unfolding rangeSubsystems_find by (simp add: find_first_match)
  with hit show "findPCISubsystem info vid pid svid spid = s"
    by (simp add: findPCISubsystem_def)
qed

lemma sampleInfo_product:
  "Products sampleInfo ''10de1c82'' =
     Some (Product ''10de'' ''1c82'' ''GP107 [GeForce GTX 1050 Ti]''
             [Product ''1043'' ''8613'' ''PH-GTX1050TI-4G'' []])"
  by (simp add: sampleInfo_def)

theorem findPCISubsystem_two_key_join_witness:
  "findPCISubsystem sampleInfo ''10de'' ''1c82'' ''1043'' ''8613'' =
     Product ''1043'' ''8613'' ''PH-GTX1050TI-4G'' []
   \<and> Vendors sampleInfo ''8086'' = None
   \<and> findPCISubsystem sampleInfo ''10de'' ''1c82'' ''8086'' ''8613'' =
       Product ''8086'' ''8613'' ''unknown'' []
   \<and> Products sampleInfo (''10de'' @ ''ffff'') = None
   \<and> findPCISubsystem sampleInfo ''10de'' ''ffff'' ''1043'' ''8613'' =
       Product ''1043'' ''8613'' ''unknown'' []
   \<and> findPCISubsystem sampleInfo ''10de'' ''1c82'' ''1043'' ''0000'' =
       Product ''1043'' ''0000'' ''unknown'' []"
proof -
  have vendor: "Vendors sampleInfo ''1043'' =
      Some \<lparr>Vendor_ID = ''1043'', Vendor_Name = ''ASUSTeK Computer Inc.'',
            Vendor_Products = []\<rparr>"
    and no_vendor: "Vendors sampleInfo ''8086'' = None"
    and no_product: "Products sampleInfo ''10deffff'' = None"
    by (simp_all add: sampleInfo_def)
  note miss = findPCISubsystem_two_key_join [THEN conjunct1, rule_format]
  have 1: "findPCISubsystem sampleInfo ''10de'' ''1c82'' ''1043'' ''8613'' =
     Product ''1043'' ''8613'' ''PH-GTX1050TI-4G'' []"
    using findPCISubsystem_two_key_join
      [of sampleInfo "''10de''" "''1c82''" "''1043''" "''8613''", THEN conjunct2, rule_format,
       of "Product ''10de'' ''1c82'' ''GP107 [GeForce GTX 1050 Ti]''
             [Product ''1043'' ''8613'' ''PH-GTX1050TI-4G'' []]"
          "\<lparr>Vendor_ID = ''1043'', Vendor_Name = ''ASUSTeK Computer Inc.'',
            Vendor_Products = []\<rparr>"
          "[]" "Product ''1043'' ''8613'' ''PH-GTX1050TI-4G'' []" "[]"]
    by (simp add: sampleInfo_product vendor)
  have 2: "findPCISubsystem sampleInfo ''10de'' ''1c82'' ''8086'' ''8613'' =
       Product ''8086'' ''8613'' ''unknown'' []"
    by (rule miss) (simp add: no_vendor)
  have 3: "findPCISubsystem sampleInfo ''10de'' ''ffff'' ''1043'' ''8613'' =
       Product ''1043'' ''8613'' ''unknown'' []"
    by (rule miss) (simp add: no_product)
  have 4: "findPCISubsystem sampleInfo ''10de'' ''1c82'' ''1043'' ''0000'' =
       Product ''1043'' ''0000'' ''unknown'' []"
    by (rule miss) (simp add: sampleInfo_product)
  from 1 2 3 4 no_vendor no_product show ?thesis by simp
qed

text \<open>
  C8. The programming-interface lookup is a linear search, by programming-interface ID,
  of the interface list of the record that the subclass lookup returns for the same class
  and subclass IDs: the first entry with that ID, and the placeholder with the ID and the
  name \<^verbatim>\<open>unknown\<close> when there is none. So when the subclass lookup itself misses (the
  class is absent, or none of its subclasses has the subclass ID), the result is the
  placeholder.
\<close>

theorem findPCIProgrammingInterface_linear_search:
  "findPCIProgrammingInterface info cid scid piid =
     (case List.find (\<lambda>pi. ProgrammingInterface_ID pi = piid)
             (Subclass_ProgrammingInterfaces (findPCISubclass info cid scid)) of
        Some pi \<Rightarrow> pi
      | None \<Rightarrow> \<lparr>ProgrammingInterface_ID = piid, ProgrammingInterface_Name = ''unknown''\<rparr>)
   \<and> ((Classes info cid = None
        \<or> (\<exists>class. Classes info cid = Some class
              \<and> (\<forall>sc\<in>set (Class_Subclasses class). Subclass_ID sc \<noteq> scid)))
      \<longrightarrow> findPCIProgrammingInterface info cid scid piid =
            \<lparr>ProgrammingInterface_ID = piid, ProgrammingInterface_Name = ''unknown''\<rparr>)"
proof (intro conjI impI)
  show "findPCIProgrammingInterface info cid scid piid =
     (case List.find (\<lambda>pi. ProgrammingInterface_ID pi = piid)
             (Subclass_ProgrammingInterfaces (findPCISubclass info cid scid)) of
        Some pi \<Rightarrow> pi
      | None \<Rightarrow> \<lparr>ProgrammingInterface_ID = piid, ProgrammingInterface_Name = ''unknown''\<rparr>)"
    by (simp add: findPCIProgrammingInterface_def rangeProgrammingInterfaces_find UNKNOWN_def
        split: option.splits)
next
  assume miss: "Classes info cid = None
        \<or> (\<exists>class. Classes info cid = Some class
              \<and> (\<forall>sc\<in>set (Class_Subclasses class). Subclass_ID sc \<noteq> scid))"
  have "findPCISubclass info cid scid =
      \<lparr>Subclass_ID = scid, Subclass_Name = UNKNOWN, Subclass_ProgrammingInterfaces = []\<rparr>"
  proof (cases "Classes info cid")
    case None
    then show ?thesis by (simp add: findPCISubclass_def)
  next
    case (Some cls)
    with miss have "\<forall>sc\<in>set (Class_Subclasses cls). Subclass_ID sc \<noteq> scid"
      by simp
    then have "rangeSubclasses (Class_Subclasses cls) scid = None"
      unfolding rangeSubclasses_find by (rule find_no_match)
    with Some show ?thesis by (simp add: findPCISubclass_def)
  qed
  then show "findPCIProgrammingInterface info cid scid piid =
            \<lparr>ProgrammingInterface_ID = piid, ProgrammingInterface_Name = ''unknown''\<rparr>"
    by (simp add: findPCIProgrammingInterface_def UNKNOWN_def)
qed

theorem findPCIProgrammingInterface_linear_search_witness:
  "findPCIProgrammingInterface sampleInfo ''03'' ''00'' ''01'' =
     \<lparr>ProgrammingInterface_ID = ''01'', ProgrammingInterface_Name = ''8514 controller''\<rparr>
   \<and> Classes sampleInfo ''0C'' = None
   \<and> findPCIProgrammingInterface sampleInfo ''0C'' ''03'' ''30'' =
       \<lparr>ProgrammingInterface_ID = ''30'', ProgrammingInterface_Name = ''unknown''\<rparr>
   \<and> (\<exists>c. Classes sampleInfo ''03'' = Some c
         \<and> (\<forall>sc\<in>set (Class_Subclasses c). Subclass_ID sc \<noteq> ''80''))
   \<and> findPCIProgrammingInterface sampleInfo ''03'' ''80'' ''00'' =
       \<lparr>ProgrammingInterface_ID = ''00'', ProgrammingInterface_Name = ''unknown''\<rparr>"
proof -
  have no_class: "Classes sampleInfo ''0C'' = None"
    by (simp add: sampleInfo_def)
  have no_subclass: "\<exists>c. Classes sampleInfo ''03'' = Some c
         \<and> (\<forall>sc\<in>set (Class_Subclasses c). Subclass_ID sc \<noteq> ''80'')"
    by (simp add: sampleInfo_def)
  have sub: "Subclass_ProgrammingInterfaces (findPCISubclass sampleInfo ''03'' ''00'') =
      [\<lparr>ProgrammingInterface_ID = ''00'', ProgrammingInterface_Name = ''VGA controller''\<rparr>,
       \<lparr>ProgrammingInterface_ID = ''01'', ProgrammingInterface_Name = ''8514 controller''\<rparr>]"
    by (simp add: findPCISubclass_def sampleInfo_def)
  have 1: "findPCIProgrammingInterface sampleInfo ''03'' ''00'' ''01'' =
     \<lparr>ProgrammingInterface_ID = ''01'', ProgrammingInterface_Name = ''8514 controller''\<rparr>"
    using findPCIProgrammingInterface_linear_search
      [of sampleInfo "''03''" "''00''" "''01''", THEN conjunct1]
    by (simp add: sub)
  have 2: "findPCIProgrammingInterface sampleInfo ''0C'' ''03'' ''30'' =
       \<lparr>ProgrammingInterface_ID = ''30'', ProgrammingInterface_Name = ''unknown''\<rparr>"
    using findPCIProgrammingInterface_linear_search
      [of sampleInfo "''0C''" "''03''" "''30''", THEN conjunct2]
    by (simp add: no_class)
  have 3: "findPCIProgrammingInterface sampleInfo ''03'' ''80'' ''00'' =
       \<lparr>ProgrammingInterface_ID = ''00'', ProgrammingInterface_Name = ''unknown''\<rparr>"
    using findPCIProgrammingInterface_linear_search
      [of sampleInfo "''03''" "''80''" "''00''", THEN conjunct2] no_subclass
    by blast
  from 1 2 3 no_class no_subclass show ?thesis by blast
qed

section \<open>Properties of the identifier decoder\<close>

lemma substring_content:
  "hi \<le> len data \<Longrightarrow> substring (content data) lo hi = substring (array data) lo hi"
  by (simp add: substring_def content_def drop_take min_def)

lemma parseModaliasFile_decodes:
  assumes "Stat env fp" and "ReadFile env fp = Some data" and "53 \<le> cap data"
  shows "parseModaliasFile env fp =
     Inr (Some \<lparr>vendorID = ToLower env (substring (array data) 9 13),
                productID = ToLower env (substring (array data) 18 22),
                subproductID = ToLower env (substring (array data) 38 42),
                subvendorID = ToLower env (substring (array data) 28 32),
                classID = substring (array data) 44 46,
                subclassID = substring (array data) 48 50,
                progIfaceID = substring (array data) 51 53\<rparr>)"
  using assms by (simp add: parseModaliasFile_def sliceString_def andThen_def)

lemma parseModaliasFile_faults:
  assumes "Stat env fp" and "ReadFile env fp = Some data" and "cap data < 53"
  shows "parseModaliasFile env fp = Inl SliceBoundsOutOfRange"
  using assms by (simp add: parseModaliasFile_def sliceString_def andThen_def)

lemma parseModaliasFile_readable_never_absent:
  assumes "Stat env fp" and "ReadFile env fp = Some data"
  shows "parseModaliasFile env fp \<noteq> Inr None"
proof (cases "53 \<le> cap data")
  case True
  with assms show ?thesis by (simp add: parseModaliasFile_decodes)
next
  case False
  with assms show ?thesis by (simp add: parseModaliasFile_faults)
qed


lemma lowerByte_letters:
  "map lowerByte ''ABCDEFGHIJKLMNOPQRSTUVWXYZ'' = ''abcdefghijklmnopqrstuvwxyz''"
  by code_simp

lemma lowerByte_other:
  "\<not> (65 \<le> (of_char c :: nat) \<and> (of_char c :: nat) \<le> 90) \<Longrightarrow> lowerByte c = c"
  by (auto simp: lowerByte_def Let_def)

lemma ToLower_hex:
  "ToLower env ''10DE'' = ''10de''" "ToLower env ''1C82'' = ''1c82''"
  "ToLower env ''1043'' = ''1043''" "ToLower env ''8613'' = ''8613''"
  by code_simp+

text \<open>
  C3. A readable blob of at least 53 bytes is decoded into the seven substrings at the
  fixed offsets, the end excluded: vendor ID at 9 to 13, product ID at 18 to 22,
  subvendor ID at 28 to 32, subproduct ID at 38 to 42 (these four through
  \<^verbatim>\<open>strings.ToLower\<close>), class ID at 44 to 46, subclass ID at 48 to 50 and
  programming-interface ID at 51 to 53. In particular the blob
  \<^verbatim>\<open>pci:v000010DEd00001C82sv00001043sd00008613bc03sc00i00\<close> decodes to the vendor ID
  \<^verbatim>\<open>10de\<close>, product ID \<^verbatim>\<open>1c82\<close>, subvendor ID \<^verbatim>\<open>1043\<close>, subproduct ID \<^verbatim>\<open>8613\<close>,
  class ID \<^verbatim>\<open>03\<close>, subclass ID \<^verbatim>\<open>00\<close> and programming-interface ID \<^verbatim>\<open>00\<close>.
\<close>

theorem parseModaliasFile_offsets:
  assumes "Stat env fp" and "ReadFile env fp = Some data"
    and "53 \<le> len data" and "len data \<le> cap data"
  shows "parseModaliasFile env fp =
       Inr (Some \<lparr>vendorID = ToLower env (substring (content data) 9 13),
                  productID = ToLower env (substring (content data) 18 22),
                  subproductID = ToLower env (substring (content data) 38 42),
                  subvendorID = ToLower env (substring (content data) 28 32),
                  classID = substring (content data) 44 46,
                  subclassID = substring (content data) 48 50,
                  progIfaceID = substring (content data) 51 53\<rparr>)
     \<and> (content data = ''pci:v000010DEd00001C82sv00001043sd00008613bc03sc00i00'' \<longrightarrow>
          parseModaliasFile env fp =
            Inr (Some \<lparr>vendorID = ''10de'', productID = ''1c82'', subproductID = ''8613'',
                       subvendorID = ''1043'', classID = ''03'', subclassID = ''00'',
                       progIfaceID = ''00''\<rparr>))"
proof -
  from assms have "53 \<le> cap data" by simp
  with assms have general: "parseModaliasFile env fp =
       Inr (Some \<lparr>vendorID = ToLower env (substring (content data) 9 13),
                  productID = ToLower env (substring (content data) 18 22),
                  subproductID = ToLower env (substring (content data) 38 42),
                  subvendorID = ToLower env (substring (content data) 28 32),
                  classID = substring (content data) 44 46,
                  subclassID = substring (content data) 48 50,
                  progIfaceID = substring (content data) 51 53\<rparr>)"
    by (simp add: parseModaliasFile_decodes substring_content)
  show ?thesis
  proof (intro conjI impI)
    show "parseModaliasFile env fp =
       Inr (Some \<lparr>vendorID = ToLower env (substring (content data) 9 13),
                  productID = ToLower env (substring (content data) 18 22),
                  subproductID = ToLower env (substring (content data) 38 42),
                  subvendorID = ToLower env (substring (content data) 28 32),
                  classID = substring (content data) 44 46,
                  subclassID = substring (content data) 48 50,
                  progIfaceID = substring (content data) 51 53\<rparr>)"
      by (rule general)
  next
    assume blob: "content data = ''pci:v000010DEd00001C82sv00001043sd00008613bc03sc00i00''"
    show "parseModaliasFile env fp =
            Inr (Some \<lparr>vendorID = ''10de'', productID = ''1c82'', subproductID = ''8613'',
                       subvendorID = ''1043'', classID = ''03'', subclassID = ''00'',
                       progIfaceID = ''00''\<rparr>)"
      unfolding general blob by (simp add: substring_def ToLower_hex)
  qed
qed

lemma sampleHost_gpu_file:
  "Stat sampleHost ''/sys/bus/pci/devices/0000:03:00.0/modalias''"
  "ReadFile sampleHost ''/sys/bus/pci/devices/0000:03:00.0/modalias'' =
     Some \<lparr>array = ''pci:v000010DEd00001C82sv00001043sd00008613bc03sc00i00'', len = 53\<rparr>"
  by (simp_all add: sampleHost_def sampleFiles_def gpuBlob_def)

theorem parseModaliasFile_offsets_witness:
  "Stat sampleHost ''/sys/bus/pci/devices/0000:03:00.0/modalias''
   \<and> ReadFile sampleHost ''/sys/bus/pci/devices/0000:03:00.0/modalias'' =
       Some \<lparr>array = ''pci:v000010DEd00001C82sv00001043sd00008613bc03sc00i00'', len = 53\<rparr>
   \<and> parseModaliasFile sampleHost ''/sys/bus/pci/devices/0000:03:00.0/modalias'' =
       Inr (Some \<lparr>vendorID = ''10de'', productID = ''1c82'', subproductID = ''8613'',
                  subvendorID = ''1043'', classID = ''03'', subclassID = ''00'',
                  progIfaceID = ''00''\<rparr>)"
proof -
  have "parseModaliasFile sampleHost ''/sys/bus/pci/devices/0000:03:00.0/modalias'' =
       Inr (Some \<lparr>vendorID = ''10de'', productID = ''1c82'', subproductID = ''8613'',
                  subvendorID = ''1043'', classID = ''03'', subclassID = ''00'',
                  progIfaceID = ''00''\<rparr>)"
    using parseModaliasFile_offsets [OF sampleHost_gpu_file, THEN conjunct2]
    by (simp add: content_def cap_def)
  with sampleHost_gpu_file show ?thesis by simp
qed




lemma sampleHost_usb:
  "parseModaliasFile sampleHost ''/sys/bus/pci/devices/0000:00:14.0/modalias'' =
     Inr (Some \<lparr>vendorID = ''8086'', productID = ''a12f'', subproductID = ''8694'',
                subvendorID = ''1043'', classID = ''0C'', subclassID = ''03'',
                progIfaceID = ''30''\<rparr>)"
  by code_simp


text \<open>
  C1, which says that a blob shorter than 53 bytes is decoded to no value and never
  faults. The decoder has no length check: on the readable four-byte blob \<^verbatim>\<open>pci:\<close> it
  faults with a slice-bounds panic when the slice has no spare capacity, and when the
  read buffer has 512 bytes it returns a record made of the buffer's zero bytes. In
  neither case does it return no value.
\<close>

theorem parseModaliasFile_short_blob:
  "Stat sampleHost ''/sys/bus/pci/devices/0000:00:02.0/modalias''
   \<and> ReadFile sampleHost ''/sys/bus/pci/devices/0000:00:02.0/modalias'' =
       Some \<lparr>array = ''pci:'', len = 4\<rparr>
   \<and> parseModaliasFile sampleHost ''/sys/bus/pci/devices/0000:00:02.0/modalias'' =
       Inl SliceBoundsOutOfRange
   \<and> Stat paddedHost ''/sys/bus/pci/devices/0000:00:02.0/modalias''
   \<and> ReadFile paddedHost ''/sys/bus/pci/devices/0000:00:02.0/modalias'' =
       Some \<lparr>array = ''pci:'' @ replicate 508 (CHR 0x00), len = 4\<rparr>
   \<and> parseModaliasFile paddedHost ''/sys/bus/pci/devices/0000:00:02.0/modalias'' =
       Inr (Some \<lparr>vendorID = replicate 4 (CHR 0x00), productID = replicate 4 (CHR 0x00),
                  subproductID = replicate 4 (CHR 0x00),
                  subvendorID = replicate 4 (CHR 0x00),
                  classID = replicate 2 (CHR 0x00), subclassID = replicate 2 (CHR 0x00),
                  progIfaceID = replicate 2 (CHR 0x00)\<rparr>)"
  by code_simp

section \<open>Properties of device assembly\<close>

lemma rangeSubsystems_hit:
  "rangeSubsystems ps spid = Some s \<Longrightarrow> s \<in> set ps \<and> Product_ID s = spid"
  by (induction ps) (auto split: if_splits)

lemma rangeSubclasses_hit:
  "rangeSubclasses scs scid = Some sc \<Longrightarrow> sc \<in> set scs \<and> Subclass_ID sc = scid"
  by (induction scs) (auto split: if_splits)

lemma rangeProgrammingInterfaces_hit:
  "rangeProgrammingInterfaces pis piid = Some pi \<Longrightarrow>
     pi \<in> set pis \<and> ProgrammingInterface_ID pi = piid"
  by (induction pis) (auto split: if_splits)

lemma findPCIVendor_cases:
  "Vendors info vid = Some (findPCIVendor info vid)
   \<or> findPCIVendor info vid =
        \<lparr>Vendor_ID = vid, Vendor_Name = ''unknown'', Vendor_Products = []\<rparr>"
  by (simp add: findPCIVendor_def UNKNOWN_def split: option.splits)

lemma findPCIProduct_cases:
  "Products info (vid @ pid) = Some (findPCIProduct info vid pid)
   \<or> findPCIProduct info vid pid = Product '''' pid ''unknown'' []"
  by (simp add: findPCIProduct_def UNKNOWN_def split: option.splits)

lemma findPCISubsystem_cases:
  "(\<exists>product. Products info (vid @ pid) = Some product
       \<and> findPCISubsystem info vid pid svid spid \<in> set (Product_Subsystems product)
       \<and> Product_ID (findPCISubsystem info vid pid svid spid) = spid)
   \<or> findPCISubsystem info vid pid svid spid = Product svid spid ''unknown'' []"
  by (auto simp: findPCISubsystem_def UNKNOWN_def Let_def
      split: option.splits dest: rangeSubsystems_hit)

lemma findPCIClass_cases:
  "Classes info cid = Some (findPCIClass info cid)
   \<or> findPCIClass info cid =
        \<lparr>Class_ID = cid, Class_Name = ''unknown'', Class_Subclasses = []\<rparr>"
  by (simp add: findPCIClass_def UNKNOWN_def split: option.splits)

lemma findPCISubclass_cases:
  "(\<exists>c. Classes info cid = Some c
       \<and> findPCISubclass info cid scid \<in> set (Class_Subclasses c)
       \<and> Subclass_ID (findPCISubclass info cid scid) = scid)
   \<or> findPCISubclass info cid scid =
        \<lparr>Subclass_ID = scid, Subclass_Name = ''unknown'',
         Subclass_ProgrammingInterfaces = []\<rparr>"
  by (auto simp: findPCISubclass_def UNKNOWN_def Let_def
      split: option.splits dest: rangeSubclasses_hit)

lemma findPCIProgrammingInterface_cases:
  "(\<exists>c sc. Classes info cid = Some c
       \<and> sc \<in> set (Class_Subclasses c) \<and> Subclass_ID sc = scid
       \<and> findPCIProgrammingInterface info cid scid piid
            \<in> set (Subclass_ProgrammingInterfaces sc)
       \<and> ProgrammingInterface_ID (findPCIProgrammingInterface info cid scid piid) = piid)
   \<or> findPCIProgrammingInterface info cid scid piid =
        \<lparr>ProgrammingInterface_ID = piid, ProgrammingInterface_Name = ''unknown''\<rparr>"
proof (cases "rangeProgrammingInterfaces
    (Subclass_ProgrammingInterfaces (findPCISubclass info cid scid)) piid")
  case None
  then show ?thesis
    by (simp add: findPCIProgrammingInterface_def UNKNOWN_def)
next
  case (Some pi)
  then have res: "findPCIProgrammingInterface info cid scid piid = pi"
    by (simp add: findPCIProgrammingInterface_def)
  from Some have pi: "pi \<in> set (Subclass_ProgrammingInterfaces (findPCISubclass info cid scid))"
    "ProgrammingInterface_ID pi = piid"
    by (auto dest: rangeProgrammingInterfaces_hit)
  from findPCISubclass_cases [of info cid scid] show ?thesis
  proof
    assume "\<exists>c. Classes info cid = Some c
       \<and> findPCISubclass info cid scid \<in> set (Class_Subclasses c)
       \<and> Subclass_ID (findPCISubclass info cid scid) = scid"
    then obtain c where "Classes info cid = Some c"
      and "findPCISubclass info cid scid \<in> set (Class_Subclasses c)"
      and "Subclass_ID (findPCISubclass info cid scid) = scid"
      by blast
    with pi have "\<exists>c sc. Classes info cid = Some c
       \<and> sc \<in> set (Class_Subclasses c) \<and> Subclass_ID sc = scid
       \<and> pi \<in> set (Subclass_ProgrammingInterfaces sc)
       \<and> ProgrammingInterface_ID pi = piid"
      by (intro exI [of _ c] exI [of _ "findPCISubclass info cid scid"]) simp
    then show ?thesis unfolding res by (rule disjI1)
  next
    assume "findPCISubclass info cid scid =
        \<lparr>Subclass_ID = scid, Subclass_Name = ''unknown'',
         Subclass_ProgrammingInterfaces = []\<rparr>"
    with pi show ?thesis by simp
  qed
qed

lemma GetDevice_decoded:
  assumes "getDeviceModaliasPath env address \<noteq> ''''"
    and "parseModaliasFile env (getDeviceModaliasPath env address) = Inr (Some m)"
  shows "GetDevice env info address =
     Inr (Some
       \<lparr>Device_Address = address,
        Device_Vendor = findPCIVendor info (vendorID m),
        Device_Subsystem =
          findPCISubsystem info (vendorID m) (productID m) (subvendorID m) (subproductID m),
        Device_Product = findPCIProduct info (vendorID m) (productID m),
        Device_Class = findPCIClass info (classID m),
        Device_Subclass = findPCISubclass info (classID m) (subclassID m),
        Device_ProgrammingInterface =
          findPCIProgrammingInterface info (classID m) (subclassID m) (progIfaceID m)\<rparr>)"
  using assms by (simp add: GetDevice_def Let_def)

text \<open>
  C5. Once the address has given a path and the blob at that path has been decoded,
  \<^verbatim>\<open>GetDevice\<close> returns a device record, whatever the database holds, and each of its
  six resolved fields is there: the vendor, product, subsystem, class, subclass and
  programming interface are each either an entry of the database found under the decoded
  IDs, or the placeholder that carries the decoded ID and the name \<^verbatim>\<open>unknown\<close>.
\<close>

theorem GetDevice_fields_present:
  assumes "getDeviceModaliasPath env address \<noteq> ''''"
    and "parseModaliasFile env (getDeviceModaliasPath env address) = Inr (Some m)"
  shows "\<exists>dev. GetDevice env info address = Inr (Some dev)
     \<and> (Vendors info (vendorID m) = Some (Device_Vendor dev)
        \<or> Device_Vendor dev =
             \<lparr>Vendor_ID = vendorID m, Vendor_Name = ''unknown'', Vendor_Products = []\<rparr>)
     \<and> (Products info (vendorID m @ productID m) = Some (Device_Product dev)
        \<or> Device_Product dev = Product '''' (productID m) ''unknown'' [])
     \<and> ((\<exists>product. Products info (vendorID m @ productID m) = Some product
             \<and> Device_Subsystem dev \<in> set (Product_Subsystems product)
             \<and> Product_ID (Device_Subsystem dev) = subproductID m)
        \<or> Device_Subsystem dev = Product (subvendorID m) (subproductID m) ''unknown'' [])
     \<and> (Classes info (classID m) = Some (Device_Class dev)
        \<or> Device_Class dev =
             \<lparr>Class_ID = classID m, Class_Name = ''unknown'', Class_Subclasses = []\<rparr>)
     \<and> ((\<exists>c. Classes info (classID m) = Some c
             \<and> Device_Subclass dev \<in> set (Class_Subclasses c)
             \<and> Subclass_ID (Device_Subclass dev) = subclassID m)
        \<or> Device_Subclass dev =
             \<lparr>Subclass_ID = subclassID m, Subclass_Name = ''unknown'',
              Subclass_ProgrammingInterfaces = []\<rparr>)
     \<and> ((\<exists>c sc. Classes info (classID m) = Some c
             \<and> sc \<in> set (Class_Subclasses c) \<and> Subclass_ID sc = subclassID m
             \<and> Device_ProgrammingInterface dev \<in> set (Subclass_ProgrammingInterfaces sc)
             \<and> ProgrammingInterface_ID (Device_ProgrammingInterface dev) = progIfaceID m)
        \<or> Device_ProgrammingInterface dev =
             \<lparr>ProgrammingInterface_ID = progIfaceID m,
              ProgrammingInterface_Name = ''unknown''\<rparr>)"
  unfolding GetDevice_decoded [OF assms]
  using findPCIVendor_cases [of info "vendorID m"]
    findPCIProduct_cases [of info "vendorID m" "productID m"]
    findPCISubsystem_cases [of info "vendorID m" "productID m" "subvendorID m" "subproductID m"]
    findPCIClass_cases [of info "classID m"]
    findPCISubclass_cases [of info "classID m" "subclassID m"]
    findPCIProgrammingInterface_cases [of info "classID m" "subclassID m" "progIfaceID m"]
  by simp

lemma sampleHost_usb_path:
  "getDeviceModaliasPath sampleHost ''0000:00:14.0'' =
     ''/sys/bus/pci/devices/0000:00:14.0/modalias''"
  by code_simp



lemma sampleHost_gpu_short:
  "GetDevice sampleHost sampleInfo ''03:00.0'' = Inr (Some (gpuDevice ''03:00.0''))"
  by code_simp


theorem GetDevice_fields_present_witness:
  "getDeviceModaliasPath sampleHost ''0000:00:14.0'' \<noteq> ''''
   \<and> parseModaliasFile sampleHost (getDeviceModaliasPath sampleHost ''0000:00:14.0'') =
       Inr (Some \<lparr>vendorID = ''8086'', productID = ''a12f'', subproductID = ''8694'',
                  subvendorID = ''1043'', classID = ''0C'', subclassID = ''03'',
                  progIfaceID = ''30''\<rparr>)
   \<and> (\<exists>dev. GetDevice sampleHost sampleInfo ''0000:00:14.0'' = Inr (Some dev)
         \<and> Device_Vendor dev =
             \<lparr>Vendor_ID = ''8086'', Vendor_Name = ''unknown'', Vendor_Products = []\<rparr>
         \<and> Device_Product dev = Product '''' ''a12f'' ''unknown'' []
         \<and> Device_Subsystem dev = Product ''1043'' ''8694'' ''unknown'' []
         \<and> Device_Class dev =
             \<lparr>Class_ID = ''0C'', Class_Name = ''unknown'', Class_Subclasses = []\<rparr>
         \<and> Device_Subclass dev =
             \<lparr>Subclass_ID = ''03'', Subclass_Name = ''unknown'',
              Subclass_ProgrammingInterfaces = []\<rparr>
         \<and> Device_ProgrammingInterface dev =
             \<lparr>ProgrammingInterface_ID = ''30'', ProgrammingInterface_Name = ''unknown''\<rparr>)"
proof -
  have path: "getDeviceModaliasPath sampleHost ''0000:00:14.0'' \<noteq> ''''"
    by (simp add: sampleHost_usb_path)
  have decoded:
    "parseModaliasFile sampleHost (getDeviceModaliasPath sampleHost ''0000:00:14.0'') =
       Inr (Some \<lparr>vendorID = ''8086'', productID = ''a12f'', subproductID = ''8694'',
                  subvendorID = ''1043'', classID = ''0C'', subclassID = ''03'',
                  progIfaceID = ''30''\<rparr>)"
    by (simp add: sampleHost_usb_path sampleHost_usb)
  have db: "Vendors sampleInfo ''8086'' = None" "Products sampleInfo ''8086a12f'' = None"
    "Classes sampleInfo ''0C'' = None"
    by (simp_all add: sampleInfo_def)
  from GetDevice_fields_present [OF path decoded, of sampleInfo] path decoded
  show ?thesis
    by (simp add: db)
qed

text \<open>
  C9. \<^verbatim>\<open>GetDevice\<close> returns no value, without a fault and without a device record, for
  every address that the address parser rejects, and for every address whose identifier
  blob is absent (\<^verbatim>\<open>os.Stat\<close> fails) or unreadable (\<^verbatim>\<open>ioutil.ReadFile\<close> fails).
\<close>

theorem GetDevice_no_value:
  "(AddressFromString env address = None \<longrightarrow> GetDevice env info address = Inr None)
   \<and> (\<not> Stat env (getDeviceModaliasPath env address) \<longrightarrow>
        GetDevice env info address = Inr None)
   \<and> (ReadFile env (getDeviceModaliasPath env address) = None \<longrightarrow>
        GetDevice env info address = Inr None)"
  by (simp add: GetDevice_def getDeviceModaliasPath_def parseModaliasFile_def Let_def)

theorem GetDevice_no_value_witness:
  "AddressFromString sampleHost ''README'' = None
   \<and> GetDevice sampleHost sampleInfo ''README'' = Inr None
   \<and> AddressFromString sampleHost ''0000:00:1f.3'' \<noteq> None
   \<and> \<not> Stat sampleHost (getDeviceModaliasPath sampleHost ''0000:00:1f.3'')
   \<and> ReadFile sampleHost (getDeviceModaliasPath sampleHost ''0000:00:1f.3'') = None
   \<and> GetDevice sampleHost sampleInfo ''0000:00:1f.3'' = Inr None"
proof -
  have parsed: "AddressFromString sampleHost ''README'' = None"
    "AddressFromString sampleHost ''0000:00:1f.3'' \<noteq> None"
    by (simp_all add: sampleHost_def sampleAddresses_def)
  have path: "getDeviceModaliasPath sampleHost ''0000:00:1f.3'' =
      ''/sys/bus/pci/devices/0000:00:1f.3/modalias''"
    by code_simp
  have absent: "\<not> Stat sampleHost (getDeviceModaliasPath sampleHost ''0000:00:1f.3'')"
    "ReadFile sampleHost (getDeviceModaliasPath sampleHost ''0000:00:1f.3'') = None"
    unfolding path by (simp_all add: sampleHost_def sampleFiles_def)
  from GetDevice_no_value [of sampleHost "''README''" sampleInfo]
    GetDevice_no_value [of sampleHost "''0000:00:1f.3''" sampleInfo] parsed absent
  show ?thesis by simp
qed

text \<open>
  C10. Whenever \<^verbatim>\<open>GetDevice\<close> returns a device, the device's address is the input string
  as it was given, also for a short-form address without a domain, while the identifier
  blob was read at the path built from the parsed components (domain, bus, slot and
  function) of that address.
\<close>

theorem GetDevice_echoes_address:
  assumes "GetDevice env info address = Inr (Some dev)"
  shows "Device_Address dev = address
     \<and> (\<exists>pciAddr data. AddressFromString env address = Some pciAddr
           \<and> ReadFile env
                (Join env
                   [SysBusPciDevices env,
                    Domain pciAddr @ '':'' @ Bus pciAddr @ '':'' @ Slot pciAddr @ ''.''
                      @ Function pciAddr,
                    ''modalias'']) = Some data)"
proof -
  let ?fp = "getDeviceModaliasPath env address"
  from assms have nonempty: "?fp \<noteq> ''''"
    by (auto simp: GetDevice_def Let_def split: if_splits)
  with assms obtain m where m: "parseModaliasFile env ?fp = Inr (Some m)"
    by (auto simp: GetDevice_def Let_def split: sum.splits option.splits)
  from GetDevice_decoded [OF nonempty m, of info] assms
  have address: "Device_Address dev = address"
    by auto
  from nonempty obtain pciAddr where parsed: "AddressFromString env address = Some pciAddr"
    by (auto simp: getDeviceModaliasPath_def split: option.splits)
  from m obtain data where "ReadFile env ?fp = Some data"
    by (auto simp: parseModaliasFile_def split: if_splits option.splits)
  with parsed have "ReadFile env
                (Join env
                   [SysBusPciDevices env,
                    Domain pciAddr @ '':'' @ Bus pciAddr @ '':'' @ Slot pciAddr @ ''.''
                      @ Function pciAddr,
                    ''modalias'']) = Some data"
    by (simp add: getDeviceModaliasPath_def)
  with address parsed show ?thesis by blast
qed

theorem GetDevice_echoes_address_witness:
  "GetDevice sampleHost sampleInfo ''03:00.0'' = Inr (Some (gpuDevice ''03:00.0''))
   \<and> Device_Address (gpuDevice ''03:00.0'') = ''03:00.0''
   \<and> getDeviceModaliasPath sampleHost ''03:00.0'' =
       ''/sys/bus/pci/devices/0000:03:00.0/modalias''"
proof -
  have path: "getDeviceModaliasPath sampleHost ''03:00.0'' =
       ''/sys/bus/pci/devices/0000:03:00.0/modalias''"
    by code_simp
  from GetDevice_echoes_address [OF sampleHost_gpu_short] sampleHost_gpu_short path
  show ?thesis by simp
qed

section \<open>Properties of the enumeration\<close>

lemma skipped_simps:
  "skipped env info [] = []"
  "skipped env info (addr # links) =
     (if GetDevice env info addr = Inr None then addr # skipped env info links
      else skipped env info links)"
  by (simp_all add: skipped_def)

lemma resolved_simps:
  "resolved env info [] = []"
  "resolved env info (addr # links) =
     (case GetDevice env info addr of
        Inr (Some dev) \<Rightarrow> dev # resolved env info links
      | _ \<Rightarrow> resolved env info links)"
  by (simp_all add: resolved_def map_filter_simps split: sum.splits option.splits)

lemma rangeLinks_prefix:
  assumes "\<forall>addr\<in>set pre. \<not> faults env info addr"
  shows "rangeLinks env info (pre @ post) out devs =
     rangeLinks env info post
       (out @ map getDeviceFailed (skipped env info pre)) (devs @ resolved env info pre)"
  using assms
proof (induction pre arbitrary: out devs)
  case Nil
  show ?case by (simp add: skipped_simps resolved_simps)
next
  case (Cons addr pre)
  from Cons.prems have rest: "\<forall>addr\<in>set pre. \<not> faults env info addr"
    and here: "\<not> isl (GetDevice env info addr)"
    by (simp_all add: faults_def)
  from here consider "GetDevice env info addr = Inr None"
    | dev where "GetDevice env info addr = Inr (Some dev)"
    by (cases "GetDevice env info addr") auto
  then show ?case
  proof cases
    case 1
    then show ?thesis
      by (simp add: Cons.IH [OF rest] skipped_simps resolved_simps)
  next
    case 2
    then show ?thesis
      by (simp add: Cons.IH [OF rest] skipped_simps resolved_simps)
  qed
qed


lemma rangeLinks_faults:
  assumes "\<forall>addr\<in>set pre. \<not> faults env info addr" and "faults env info a"
  shows "rangeLinks env info (pre @ a # post) out devs =
     \<lparr>stderr = out @ map getDeviceFailed (skipped env info pre),
      result = Inl SliceBoundsOutOfRange\<rparr>"
proof -
  from assms(2) obtain e where "GetDevice env info a = Inl e"
    by (auto simp: faults_def isl_def)
  moreover have "e = SliceBoundsOutOfRange" by (cases e) simp
  ultimately show ?thesis
    by (simp add: rangeLinks_prefix [OF assms(1)])
qed

text \<open>
  A fault of one resolution ends the whole enumeration: on the host that lists the
  identifier file cut short, the diagnostic for the entry before it is written, and the
  device after it is never reached.
\<close>

lemma ListDevices_truncated_blob:
  "ListDevices truncatedHost sampleInfo =
     \<lparr>stderr = [getDeviceFailed ''README''], result = Inl SliceBoundsOutOfRange\<rparr>"
  by code_simp






end
